theory Spec2Isabelle
  imports Complex_Main
begin

section \<open>The waypoint updater node (waypoint\_updater.py)\<close>

text \<open>
  The node keeps the track it received, the last reported speed, the last traffic light
  message and the last pose. On every pose message it publishes the index of the waypoint
  of the nearest stop line and a window of at most \<open>LOOKAHEAD_WPS\<close> waypoints.

  Python floats are modelled in two ways. The velocity profile and \<open>pose_cb\<close> compute with
  real numbers, without rounding. \<open>distance\<close>, whose property is an equality between sums
  of floats, is given twice: with real arithmetic (\<open>distance\<close>) and with every operation
  rounded to an IEEE 754 double (\<open>distance_f\<close>).
\<close>

subsection \<open>Messages and node state\<close>

text \<open>geometry\_msgs/Point: the fields \<open>x\<close>, \<open>y\<close>, \<open>z\<close>.\<close>

record point =
  point_x :: real
  point_y :: real
  point_z :: real

text \<open>
  styx\_msgs/Waypoint, reduced to the two fields the node reads and writes:
  \<open>pose.pose.position\<close> and \<open>twist.twist.linear.x\<close>.
\<close>

record waypoint =
  pose_position :: point
  twist_linear_x :: real

text \<open>geometry\_msgs/Pose: a position and an orientation quaternion.\<close>

record pose =
  position :: point
  orientation :: "real \<times> real \<times> real \<times> real"

text \<open>styx\_msgs/TrafficLight: \<open>state\<close> is 0 for RED, 1 for YELLOW, 2 for GREEN, 4 for UNKNOWN.\<close>

record traffic_light =
  tl_state :: nat

text \<open>
  Waypoint messages are Python objects: a list of waypoints holds references. The
  object store \<open>heap\<close> maps a reference to the object it denotes, and \<open>waypoints\<close>
  (None until the track arrives) is the list of references \<open>self.waypoints\<close>.
\<close>

record node =
  waypoints :: "nat list option"
  heap :: "nat \<Rightarrow> waypoint"
  current_velocity :: real
  current_traffic_light :: "traffic_light option"
  current_pose :: "pose option"

datatype error = IndexError | AttributeError | TypeError | ValueError

datatype message = StopLineWaypoint nat | FinalWaypoints "waypoint list"

text \<open>What one callback did: the exception it raised (if any), what it logged and
  published before, and the node afterwards.\<close>

record outcome =
  raised :: "error option"
  logged :: "(string \<times> string) list"
  published :: "message list"
  after :: node

definition LOOKAHEAD_WPS :: nat where
  "LOOKAHEAD_WPS = 200"

definition VEL_THRESHOLD :: real where
  "VEL_THRESHOLD = 5"

subsection \<open>Callbacks that only store a value\<close>

definition current_velocity_cb :: "node \<Rightarrow> real \<Rightarrow> node" where
  "current_velocity_cb n linear_x = n\<lparr>current_velocity := linear_x\<rparr>"

definition upcoming_traffic_light_cb :: "node \<Rightarrow> traffic_light \<Rightarrow> node" where
  "upcoming_traffic_light_cb n msg = n\<lparr>current_traffic_light := Some msg\<rparr>"

text \<open>
  \<open>waypoints_cb\<close> stores the list of the message: its waypoints are fresh objects, here
  at the references \<open>0, 1, ..., length msg - 1\<close>. (The k-d tree built from them is used
  only by the helper that \<open>pose_cb\<close> takes as a parameter.)
\<close>

definition waypoints_cb :: "node \<Rightarrow> waypoint list \<Rightarrow> node" where
  "waypoints_cb n msg =
     n\<lparr>waypoints := Some [0..<length msg],
       heap := (\<lambda>r. if r < length msg then msg ! r else heap n r)\<rparr>"

definition get_waypoint_velocity :: "waypoint \<Rightarrow> real" where
  "get_waypoint_velocity w = twist_linear_x w"

text \<open>\<open>waypoints[waypoint].twist.twist.linear.x = velocity\<close>: the object is updated in place.\<close>

definition set_waypoint_velocity ::
  "(nat \<Rightarrow> waypoint) \<Rightarrow> nat list \<Rightarrow> nat \<Rightarrow> real \<Rightarrow> error + (nat \<Rightarrow> waypoint)" where
  "set_waypoint_velocity h ws wp velocity =
     (if wp < length ws
      then Inr (h(ws ! wp := (h (ws ! wp))\<lparr>twist_linear_x := velocity\<rparr>))
      else Inl IndexError)"

subsection \<open>distance\<close>

text \<open>
  With real arithmetic: the sums and the square root are exact. The velocity profile
  uses this version.
\<close>

definition dl :: "point \<Rightarrow> point \<Rightarrow> real" where
  "dl a b = sqrt ((point_x a - point_x b)\<^sup>2 + (point_y a - point_y b)\<^sup>2
                  + (point_z a - point_z b)\<^sup>2)"

text \<open>The loop of \<open>distance\<close>: \<open>wp1\<close> is the index visited last, \<open>dist_sum\<close> the sum so far
  (the variable \<open>dist\<close> of the source).\<close>

fun distance_loop ::
  "(nat \<Rightarrow> waypoint) \<Rightarrow> nat list \<Rightarrow> nat list \<Rightarrow> nat \<Rightarrow> real \<Rightarrow> error + real" where
  "distance_loop h ws [] wp1 dist_sum = Inr dist_sum"
| "distance_loop h ws (i # rest) wp1 dist_sum =
     (if wp1 < length ws \<and> i < length ws
      then distance_loop h ws rest i
             (dist_sum + dl (pose_position (h (ws ! wp1))) (pose_position (h (ws ! i))))
      else Inl IndexError)"

definition distance :: "(nat \<Rightarrow> waypoint) \<Rightarrow> nat list \<Rightarrow> nat \<Rightarrow> nat \<Rightarrow> error + real" where
  "distance h ws wp1 wp2 = distance_loop h ws [wp1..<wp2 + 1] wp1 0"

subsection \<open>distance in double precision\<close>

text \<open>
  \<open>float64 x\<close> is \<open>x\<close> rounded to the nearest IEEE 754 double, ties to the even
  mantissa: a double has 53 significant bits, so the spacing of the doubles around \<open>x\<close>
  is \<open>ulp x\<close>, 2 to the power of the exponent of \<open>x\<close> minus 52. Overflow, subnormal
  numbers and NaN are not modelled.
\<close>

definition round_half_even :: "real \<Rightarrow> int" where
  "round_half_even r =
     (if r - of_int \<lfloor>r\<rfloor> < 1/2 then \<lfloor>r\<rfloor>
      else if 1/2 < r - of_int \<lfloor>r\<rfloor> then \<lfloor>r\<rfloor> + 1
      else if even \<lfloor>r\<rfloor> then \<lfloor>r\<rfloor> else \<lfloor>r\<rfloor> + 1)"

definition ulp :: "real \<Rightarrow> real" where
  "ulp x = 2 powr (of_int \<lfloor>log 2 \<bar>x\<bar>\<rfloor> - 52)"

definition float64 :: "real \<Rightarrow> real" where
  "float64 x = (if x = 0 then 0 else of_int (round_half_even (x / ulp x)) * ulp x)"

text \<open>
  The operations of the source on doubles: \<open>a + b\<close>, \<open>a - b\<close>, \<open>a ** 2\<close> and
  \<open>math.sqrt(a)\<close>, each the exact result rounded once.
\<close>

definition fadd :: "real \<Rightarrow> real \<Rightarrow> real" where
  "fadd a b = float64 (a + b)"

definition fsub :: "real \<Rightarrow> real \<Rightarrow> real" where
  "fsub a b = float64 (a - b)"

definition fsquare :: "real \<Rightarrow> real" where
  "fsquare a = float64 (a\<^sup>2)"

definition fsqrt :: "real \<Rightarrow> real" where
  "fsqrt a = float64 (sqrt a)"

text \<open>The lambda \<open>dl\<close> and the loop of \<open>distance\<close> (lines 168 to 174) on doubles.\<close>

definition dl_f :: "point \<Rightarrow> point \<Rightarrow> real" where
  "dl_f a b =
     fsqrt (fadd (fadd (fsquare (fsub (point_x a) (point_x b)))
                       (fsquare (fsub (point_y a) (point_y b))))
                 (fsquare (fsub (point_z a) (point_z b))))"



subsection \<open>The velocity profile\<close>

text \<open>
  \<open>numpy.linspace(start, stop, num)\<close> with the end point included: no sample for
  \<open>num = 0\<close>, the start alone for \<open>num = 1\<close>, otherwise \<open>num\<close> evenly spaced samples
  whose last one is set to \<open>stop\<close>.
\<close>

definition linspace :: "real \<Rightarrow> real \<Rightarrow> nat \<Rightarrow> real list" where
  "linspace start stop num =
     (if num = 0 then []
      else if num = 1 then [start]
      else map (\<lambda>i. if i = num - 1 then stop
                     else start + real i * ((stop - start) / real (num - 1)))
               [0..<num])"

definition distribution :: "real \<Rightarrow> nat \<Rightarrow> real list" where
  "distribution velocity total_distance =
     (if velocity < VEL_THRESHOLD
      then linspace velocity VEL_THRESHOLD total_distance
           @ linspace VEL_THRESHOLD 0 total_distance
      else linspace velocity 0 total_distance)"

text \<open>\<open>int(x)\<close> on a float truncates towards zero.\<close>

definition py_int :: "real \<Rightarrow> int" where
  "py_int r = (if 0 \<le> r then \<lfloor>r\<rfloor> else \<lceil>r\<rceil>)"

text \<open>Indexing an array with an integer: a negative index counts from the end.\<close>

definition array_item :: "real list \<Rightarrow> int \<Rightarrow> error + real" where
  "array_item a i =
     (if 0 \<le> i \<and> i < int (length a) then Inr (a ! nat i)
      else if i < 0 \<and> - int (length a) \<le> i then Inr (a ! nat (int (length a) + i))
      else Inl IndexError)"

text \<open>The list comprehension of the segment distances, one per index of the range.\<close>

fun segment_distances ::
  "(nat \<Rightarrow> waypoint) \<Rightarrow> nat list \<Rightarrow> nat list \<Rightarrow> error + real list" where
  "segment_distances h ws [] = Inr []"
| "segment_distances h ws (i # rest) =
     (case distance h ws i (i + 1) of
        Inl e \<Rightarrow> Inl e
      | Inr d \<Rightarrow> (case segment_distances h ws rest of
                    Inl e \<Rightarrow> Inl e
                  | Inr ds \<Rightarrow> Inr (d # ds)))"

text \<open>
  The loop that writes the speeds: \<open>wp_idx\<close> runs over the given indices and
  \<open>dist_idx\<close> counts from 0. On an exception the objects written so far stay written.
\<close>

fun assign_velocities ::
  "real list \<Rightarrow> real list \<Rightarrow> nat list \<Rightarrow> nat list \<Rightarrow> nat \<Rightarrow> (nat \<Rightarrow> waypoint)
   \<Rightarrow> error option \<times> (nat \<Rightarrow> waypoint)" where
  "assign_velocities dis distances ws [] dist_idx h = (None, h)"
| "assign_velocities dis distances ws (wp_idx # rest) dist_idx h =
     (if dist_idx < length distances
      then (case array_item dis (py_int (distances ! dist_idx)) of
              Inl e \<Rightarrow> (Some e, h)
            | Inr velocity \<Rightarrow>
                (case set_waypoint_velocity h ws wp_idx velocity of
                   Inl e \<Rightarrow> (Some e, h)
                 | Inr h' \<Rightarrow> assign_velocities dis distances ws rest (dist_idx + 1) h'))
      else (Some IndexError, h))"

text \<open>
  \<open>new_waypoints = self.waypoints[:]\<close> is a new list of the same references, so it is
  the same value as \<open>self.waypoints\<close> here; the objects are shared through \<open>heap\<close>.
\<close>

definition set_velocity_leading_to_stop_point ::
  "node \<Rightarrow> nat \<Rightarrow> nat \<Rightarrow> (error + nat list) \<times> node" where
  "set_velocity_leading_to_stop_point n current_pose_wp_idx stop_point_idx =
     (case waypoints n of
        None \<Rightarrow> (Inl TypeError, n)
      | Some new_waypoints \<Rightarrow>
          (case segment_distances (heap n) new_waypoints
                  [current_pose_wp_idx..<stop_point_idx + 1] of
             Inl e \<Rightarrow> (Inl e, n)
           | Inr distances \<Rightarrow>
               (if \<lfloor>sum_list distances\<rfloor> < 0 then (Inl ValueError, n)
                else
                  (case assign_velocities
                          (distribution (current_velocity n) (nat \<lfloor>sum_list distances\<rfloor>))
                          distances new_waypoints
                          [current_pose_wp_idx + 1..<stop_point_idx + 1] 0 (heap n) of
                     (Some e, h) \<Rightarrow> (Inl e, n\<lparr>heap := h\<rparr>)
                   | (None, h) \<Rightarrow> (Inr new_waypoints, n\<lparr>heap := h\<rparr>)))))"

subsection \<open>pose\_cb\<close>

text \<open>
  Two things \<open>pose_cb\<close> uses are outside this file and are parameters here:
  \<^item> \<open>next_wp\<close>: \<open>helper.next_waypoint_index_kdtree\<close> applied to the node's k-d tree, from
    a pose to a track index;
  \<^item> \<open>nearest_stop\<close>: the query of the k-d tree of the stop lines followed by the lookup
    in \<open>stop_line_positions\<close>, from \<open>(x, y)\<close> to the position of the nearest stop line.
  The third, \<open>rospy\<close>, is the list of the names the ROS client library defines:
  reading an attribute the module does not have raises AttributeError.
\<close>

definition rospy_call :: "string list \<Rightarrow> string \<Rightarrow> string \<Rightarrow> error + string \<times> string" where
  "rospy_call rospy name text =
     (if name \<in> set rospy then Inr (name, text) else Inl AttributeError)"

definition closest_wp_idx :: "(pose \<Rightarrow> nat) \<Rightarrow> pose \<Rightarrow> nat" where
  "closest_wp_idx next_wp p = next_wp p"

definition stop_line_pose :: "(real \<times> real \<Rightarrow> real \<times> real) \<Rightarrow> pose \<Rightarrow> pose" where
  "stop_line_pose nearest_stop p =
     (let stop_line_positions =
            nearest_stop (point_x (position p), point_y (position p))
      in \<lparr>position = \<lparr>point_x = fst stop_line_positions,
                      point_y = snd stop_line_positions, point_z = 0\<rparr>,
          orientation = orientation p\<rparr>)"

definition stop_line_waypoint_idx ::
  "(pose \<Rightarrow> nat) \<Rightarrow> (real \<times> real \<Rightarrow> real \<times> real) \<Rightarrow> pose \<Rightarrow> nat" where
  "stop_line_waypoint_idx next_wp nearest_stop p = next_wp (stop_line_pose nearest_stop p)"

text \<open>The test of line 134: a light is stored and its state is 0 or 1.\<close>

definition red_or_yellow :: "traffic_light option \<Rightarrow> bool" where
  "red_or_yellow l = (case l of None \<Rightarrow> False | Some t \<Rightarrow> tl_state t = 0 \<or> tl_state t = 1)"

text \<open>Lines 142 to 144: slice, forget the light, publish the objects of the slice.\<close>

definition publish_window :: "node \<Rightarrow> nat list \<Rightarrow> nat \<Rightarrow> message \<Rightarrow> outcome" where
  "publish_window n new_waypoints idx stop_msg =
     (let next_wps = take LOOKAHEAD_WPS (drop idx new_waypoints);
          n' = n\<lparr>current_traffic_light := None\<rparr>
      in \<lparr>raised = None, logged = [],
          published = [stop_msg, FinalWaypoints (map (heap n') next_wps)],
          after = n'\<rparr>)"

definition pose_cb ::
  "string list \<Rightarrow> (pose \<Rightarrow> nat) \<Rightarrow> (real \<times> real \<Rightarrow> real \<times> real) \<Rightarrow> node \<Rightarrow> pose \<Rightarrow> outcome" where
  "pose_cb rospy next_wp nearest_stop n p =
     (case waypoints n of
        None \<Rightarrow>
          (case rospy_call rospy ''error'' ''No base_waypoints have been received by master'' of
             Inl e \<Rightarrow> \<lparr>raised = Some e, logged = [], published = [], after = n\<rparr>
           | Inr l \<Rightarrow> \<lparr>raised = None, logged = [l], published = [], after = n\<rparr>)
      | Some ws \<Rightarrow>
          (let n1 = n\<lparr>current_pose := Some p\<rparr>;
               idx = closest_wp_idx next_wp p;
               stop_idx = stop_line_waypoint_idx next_wp nearest_stop p
           in if red_or_yellow (current_traffic_light n1)
              then (case set_velocity_leading_to_stop_point n1 idx stop_idx of
                      (Inl e, n2) \<Rightarrow>
                        \<lparr>raised = Some e, logged = [],
                         published = [StopLineWaypoint stop_idx], after = n2\<rparr>
                    | (Inr new_waypoints, n2) \<Rightarrow>
                        publish_window n2 new_waypoints idx (StopLineWaypoint stop_idx))
              else publish_window n1 ws idx (StopLineWaypoint stop_idx)))"

subsection \<open>Notions used in the statements\<close>

text \<open>The Euclidean length of the segment from waypoint \<open>i\<close> to waypoint \<open>i + 1\<close>.\<close>

definition segment :: "(nat \<Rightarrow> waypoint) \<Rightarrow> nat list \<Rightarrow> nat \<Rightarrow> real" where
  "segment h ws i = dl (pose_position (h (ws ! i))) (pose_position (h (ws ! (i + 1))))"

text \<open>
  \<open>total_distance\<close> as line 84 computes it for a track without index errors: the floor of
  the sum of the segments \<open>i, ..., k\<close>, the last of which ends at waypoint \<open>k + 1\<close>.
\<close>

definition total_distance :: "(nat \<Rightarrow> waypoint) \<Rightarrow> nat list \<Rightarrow> nat \<Rightarrow> nat \<Rightarrow> nat" where
  "total_distance h ws i k = nat \<lfloor>sum_list (map (segment h ws) [i..<k + 1])\<rfloor>"

text \<open>The speeds of the canonical track \<open>self.waypoints\<close>, read through the object store.\<close>

definition track_speeds :: "node \<Rightarrow> real list" where
  "track_speeds n =
     (case waypoints n of None \<Rightarrow> [] | Some ws \<Rightarrow> map (\<lambda>r. twist_linear_x (heap n r)) ws)"

subsection \<open>Concrete tracks and nodes\<close>

text \<open>A waypoint on the x axis with a target speed, and a pose on the x axis.\<close>

definition wp_at :: "real \<Rightarrow> real \<Rightarrow> waypoint" where
  "wp_at x v = \<lparr>pose_position = \<lparr>point_x = x, point_y = 0, point_z = 0\<rparr>, twist_linear_x = v\<rparr>"

definition pose_at :: "real \<Rightarrow> pose" where
  "pose_at x = \<lparr>position = \<lparr>point_x = x, point_y = 0, point_z = 0\<rparr>, orientation = (0, 0, 0, 1)\<rparr>"

text \<open>The node as \<open>__init__\<close> leaves it: no track, speed 0, no light, no pose.\<close>

definition init_node :: node where
  "init_node = \<lparr>waypoints = None, heap = (\<lambda>r. wp_at 0 0), current_velocity = 0,
      current_traffic_light = None, current_pose = None\<rparr>"

definition RED :: traffic_light where
  "RED = \<lparr>tl_state = 0\<rparr>"

text \<open>Four waypoints one unit apart at speed 10; the vehicle drives at 8.\<close>

definition fast_node :: node where
  "fast_node =
     current_velocity_cb
       (waypoints_cb init_node [wp_at 0 10, wp_at 1 10, wp_at 2 10, wp_at 3 10]) 8"

text \<open>Four waypoints at x = 0, 1, 3, 4; the vehicle stands still.\<close>

definition slow_node :: node where
  "slow_node = waypoints_cb init_node [wp_at 0 10, wp_at 1 10, wp_at 3 10, wp_at 4 10]"

text \<open>Three waypoints a quarter of a unit apart; the vehicle drives at 8.\<close>

definition near_node :: node where
  "near_node =
     current_velocity_cb
       (waypoints_cb init_node [wp_at 0 10, wp_at (1/4) 10, wp_at (1/2) 10]) 8"

text \<open>Five waypoints one unit apart; the vehicle stands still.\<close>

definition still_node :: node where
  "still_node =
     waypoints_cb init_node [wp_at 0 10, wp_at 1 10, wp_at 2 10, wp_at 3 10, wp_at 4 10]"

text \<open>
  Four waypoints whose coordinates are doubles: a step of 1 along x, then a step of
  \<open>eps53\<close>, 2 to the power -53, along y, then the same step along z.
\<close>

definition eps53 :: real where
  "eps53 = 1 / 2 ^ 53"

definition wp_xyz :: "real \<Rightarrow> real \<Rightarrow> real \<Rightarrow> real \<Rightarrow> waypoint" where
  "wp_xyz x y z v = \<lparr>pose_position = \<lparr>point_x = x, point_y = y, point_z = z\<rparr>, twist_linear_x = v\<rparr>"

definition rounding_node :: node where
  "rounding_node =
     waypoints_cb init_node
       [wp_xyz 0 0 0 10, wp_xyz 1 0 0 10, wp_xyz 1 eps53 0 10, wp_xyz 1 eps53 eps53 10]"

text \<open>The same nodes after a RED traffic light message.\<close>

definition red_fast_node :: node where
  "red_fast_node = upcoming_traffic_light_cb fast_node RED"

definition red_near_node :: node where
  "red_near_node = upcoming_traffic_light_cb near_node RED"

text \<open>
  For a track along the x axis with a fixed spacing, the first waypoint at or ahead of a
  pose, and a configuration with a single stop line at \<open>(x, 0)\<close>.
\<close>

definition next_wp_on_axis :: "real \<Rightarrow> pose \<Rightarrow> nat" where
  "next_wp_on_axis spacing p = nat \<lceil>point_x (position p) / spacing\<rceil>"

definition stop_line_at :: "real \<Rightarrow> real \<times> real \<Rightarrow> real \<times> real" where
  "stop_line_at x xy = (x, 0)"

text \<open>
  The logging functions of the ROS client library \<open>rospy\<close>, of which this file uses
  \<open>loginfo\<close> (lines 147 and 152) and \<open>logerr\<close> (line 188). The library is not part of
  the repository.
\<close>

definition rospy_names :: "string list" where
  "rospy_names =
     [''logdebug'', ''loginfo'', ''logwarn'', ''logerr'', ''logfatal'', ''logout'']"

section \<open>Properties\<close>

subsection \<open>distance\<close>

lemma dl_same [simp]: "dl a a = 0"
  by (simp add: dl_def)

lemma dl_nonneg [simp]: "0 \<le> dl a b"
  by (simp add: dl_def)

lemma segment_nonneg [simp]: "0 \<le> segment h ws i"
  by (simp add: segment_def)




subsection \<open>The concrete nodes, evaluated\<close>

lemma dl_wp_at [simp]: "dl (pose_position (wp_at a v)) (pose_position (wp_at b w)) = \<bar>a - b\<bar>"
  by (simp add: dl_def wp_at_def)

lemma twist_wp_at [simp]: "twist_linear_x (wp_at a v) = v"
  by (simp add: wp_at_def)

lemma fast_node_simps [simp]:
  "waypoints fast_node = Some [0, 1, 2, 3]"
  "current_velocity fast_node = 8"
  "current_traffic_light fast_node = None"
  "heap fast_node 0 = wp_at 0 10"
  "heap fast_node (Suc 0) = wp_at 1 10"
  "heap fast_node 2 = wp_at 2 10"
  "heap fast_node 3 = wp_at 3 10"
  by (simp_all add: fast_node_def waypoints_cb_def current_velocity_cb_def init_node_def
      upt_conv_Cons)

subsection \<open>distance in double precision\<close>

lemma float64_zero [simp]: "float64 0 = 0"
  by (simp add: float64_def)

lemma round_half_even_int [simp]: "round_half_even (of_int m) = m"
  by (simp add: round_half_even_def)







lemma eps53_pos: "0 < eps53"
  by (simp add: eps53_def)

lemma eps53_nz [simp]: "eps53 \<noteq> 0"
  using eps53_pos by simp

lemma eps53_abs [simp]: "\<bar>eps53\<bar> = eps53"
  using eps53_pos by simp













lemma sqrt_eps53_sq: "sqrt (eps53\<^sup>2) = eps53"
  by simp

lemma dl_f_same [simp]: "dl_f a a = 0"
  by (simp add: dl_f_def fsub_def fsquare_def fadd_def fsqrt_def)






lemma rounding_node_simps [simp]:
  "waypoints rounding_node = Some [0, 1, 2, 3]"
  "heap rounding_node 0 = wp_xyz 0 0 0 10"
  "heap rounding_node (Suc 0) = wp_xyz 1 0 0 10"
  "heap rounding_node 2 = wp_xyz 1 eps53 0 10"
  "heap rounding_node 3 = wp_xyz 1 eps53 eps53 10"
  by (simp_all add: rounding_node_def waypoints_cb_def init_node_def upt_conv_Cons)







subsection \<open>The ramp\<close>

lemma linspace_length [simp]: "length (linspace a b n) = n"
  by (simp add: linspace_def)

lemma linspace_nth:
  "2 \<le> n \<Longrightarrow> i < n \<Longrightarrow>
   linspace a b n ! i = (if i = n - 1 then b else a + real i * ((b - a) / real (n - 1)))"
  by (simp add: linspace_def)

lemma linspace_nth_closed:
  assumes "2 \<le> n" and "i < n"
  shows "linspace a b n ! i = a + real i * ((b - a) / real (n - 1))"
proof (cases "i = n - 1")
  case True
  have "real (n - 1) \<noteq> 0" using assms by simp
  then have "a + real (n - 1) * ((b - a) / real (n - 1)) = b" by simp
  then show ?thesis using assms True by (simp add: linspace_nth)
next
  case False
  then show ?thesis using assms by (simp add: linspace_nth)
qed

lemma linspace_first: "0 < n \<Longrightarrow> linspace a b n ! 0 = a"
  by (cases "n = 1") (simp_all add: linspace_def upt_conv_Cons)

lemma linspace_last:
  assumes "2 \<le> n"
  shows "last (linspace a b n) = b"
proof -
  have "length (linspace a b n) \<noteq> 0" using assms by simp
  then have "linspace a b n \<noteq> []" by fastforce
  then have "last (linspace a b n) = linspace a b n ! (n - 1)"
    by (simp add: last_conv_nth)
  then show ?thesis using assms by (simp add: linspace_nth)
qed

lemma linspace_antitone:
  assumes "b \<le> a" and "j \<le> k" and "k < n"
  shows "linspace a b n ! k \<le> linspace a b n ! j"
proof (cases "2 \<le> n")
  case True
  define c where "c = (b - a) / real (n - 1)"
  have "c \<le> 0"
    using assms True by (simp add: c_def divide_nonpos_pos)
  moreover have "real j \<le> real k" using assms(2) by simp
  ultimately have "real k * c \<le> real j * c"
    by (rule mult_right_mono_neg [rotated])
  then show ?thesis
    using assms True unfolding c_def by (simp only: linspace_nth_closed [OF True] order_le_less_trans [OF assms(2) assms(3)])
next
  case False
  then have "k = 0" "j = 0" using assms by simp_all
  then show ?thesis by simp
qed

lemma linspace_upper:
  assumes "b \<le> a" and "i < n"
  shows "linspace a b n ! i \<le> a"
  using linspace_antitone [OF assms(1) _ assms(2), of 0] assms(2)
  by (simp add: linspace_first)

lemma linspace_lower:
  assumes "b \<le> a" and "i < n"
  shows "b \<le> linspace a b n ! i"
proof (cases "2 \<le> n")
  case True
  have "linspace a b n ! (n - 1) \<le> linspace a b n ! i"
    using assms True by (intro linspace_antitone) simp_all
  then show ?thesis using True by (simp add: linspace_nth)
next
  case False
  then have "n = 1" "i = 0" using assms by simp_all
  then show ?thesis using assms by (simp add: linspace_def)
qed

lemma array_item_Inr:
  assumes "array_item a i = Inr v"
  shows "\<exists>j<length a. v = a ! j"
proof (cases "0 \<le> i")
  case True
  then have "nat i < length a \<and> v = a ! nat i"
    using assms by (auto simp: array_item_def split: if_splits)
  then show ?thesis by blast
next
  case False
  then have "nat (int (length a) + i) < length a \<and> v = a ! nat (int (length a) + i)"
    using assms by (auto simp: array_item_def split: if_splits)
  then show ?thesis by blast
qed


subsection \<open>Writing the speeds\<close>

lemma distance_next:
  "distance h ws i (i + 1) = (if i + 1 < length ws then Inr (segment h ws i) else Inl IndexError)"
  by (simp add: distance_def segment_def upt_conv_Cons)

lemma distance_Suc:
  "distance h ws i (Suc i) = (if Suc i < length ws then Inr (segment h ws i) else Inl IndexError)"
  using distance_next [of h ws i] by simp

lemma segment_distances_eq:
  "segment_distances h ws idxs =
     (if list_all (\<lambda>i. i + 1 < length ws) idxs then Inr (map (segment h ws) idxs)
      else Inl IndexError)"
  by (induction idxs) (simp_all add: distance_Suc)

lemma assign_velocities_Cons_None:
  "assign_velocities dis ds ws (wp # rest) k h = (None, h') \<longleftrightarrow>
     (\<exists>v. k < length ds \<and> array_item dis (py_int (ds ! k)) = Inr v \<and> wp < length ws \<and>
        assign_velocities dis ds ws rest (k + 1)
          (h(ws ! wp := (h (ws ! wp))\<lparr>twist_linear_x := v\<rparr>)) = (None, h'))"
  by (auto simp: set_waypoint_velocity_def split: sum.splits if_splits)

lemma assign_velocities_frame:
  "assign_velocities dis ds ws idxs k h = (e, h') \<Longrightarrow> r \<notin> (!) ws ` set idxs \<Longrightarrow> h' r = h r"
proof (induction idxs arbitrary: k h)
  case Nil
  then show ?case by simp
next
  case (Cons wp rest)
  show ?case
  proof (cases "\<exists>v. k < length ds \<and> array_item dis (py_int (ds ! k)) = Inr v \<and> wp < length ws")
    case True
    then obtain v where v: "k < length ds" "array_item dis (py_int (ds ! k)) = Inr v"
      "wp < length ws" by blast
    let ?h1 = "h(ws ! wp := (h (ws ! wp))\<lparr>twist_linear_x := v\<rparr>)"
    have "assign_velocities dis ds ws rest (k + 1) ?h1 = (e, h')"
      using Cons.prems(1) v by (simp add: set_waypoint_velocity_def)
    then have "h' r = ?h1 r"
      using Cons.IH Cons.prems(2) by simp
    then show ?thesis using Cons.prems(2) by simp
  next
    case False
    then have "h' = h"
      using Cons.prems(1)
      by (auto simp: set_waypoint_velocity_def split: sum.splits if_splits)
    then show ?thesis by simp
  qed
qed

lemma assign_velocities_position:
  "assign_velocities dis ds ws idxs k h = (e, h') \<Longrightarrow>
   pose_position (h' r) = pose_position (h r)"
proof (induction idxs arbitrary: k h)
  case Nil
  then show ?case by simp
next
  case (Cons wp rest)
  show ?case
  proof (cases "\<exists>v. k < length ds \<and> array_item dis (py_int (ds ! k)) = Inr v \<and> wp < length ws")
    case True
    then obtain v where v: "k < length ds" "array_item dis (py_int (ds ! k)) = Inr v"
      "wp < length ws" by blast
    let ?h1 = "h(ws ! wp := (h (ws ! wp))\<lparr>twist_linear_x := v\<rparr>)"
    have "assign_velocities dis ds ws rest (k + 1) ?h1 = (e, h')"
      using Cons.prems(1) v by (simp add: set_waypoint_velocity_def)
    then have "pose_position (h' r) = pose_position (?h1 r)"
      using Cons.IH by simp
    then show ?thesis by simp
  next
    case False
    then have "h' = h"
      using Cons.prems(1)
      by (auto simp: set_waypoint_velocity_def split: sum.splits if_splits)
    then show ?thesis by simp
  qed
qed

lemma assign_velocities_bounds:
  "assign_velocities dis ds ws idxs k h = (None, h') \<Longrightarrow> i \<in> set idxs \<Longrightarrow> i < length ws"
proof (induction idxs arbitrary: k h)
  case Nil
  then show ?case by simp
next
  case (Cons wp rest)
  then show ?case
    unfolding assign_velocities_Cons_None by auto
qed

lemma assign_velocities_written:
  "assign_velocities dis ds ws idxs k h = (None, h') \<Longrightarrow> distinct ws \<Longrightarrow> distinct idxs \<Longrightarrow>
   m < length idxs \<Longrightarrow>
   array_item dis (py_int (ds ! (k + m))) = Inr (twist_linear_x (h' (ws ! (idxs ! m))))"
proof (induction idxs arbitrary: k h m)
  case Nil
  then show ?case by simp
next
  case (Cons wp rest)
  from Cons.prems(1) obtain v where v: "k < length ds"
      "array_item dis (py_int (ds ! k)) = Inr v" "wp < length ws"
      and rec: "assign_velocities dis ds ws rest (k + 1)
          (h(ws ! wp := (h (ws ! wp))\<lparr>twist_linear_x := v\<rparr>)) = (None, h')"
    unfolding assign_velocities_Cons_None by blast
  let ?h1 = "h(ws ! wp := (h (ws ! wp))\<lparr>twist_linear_x := v\<rparr>)"
  show ?case
  proof (cases m)
    case 0
    have "ws ! wp \<notin> (!) ws ` set rest"
    proof
      assume "ws ! wp \<in> (!) ws ` set rest"
      then obtain i where i: "i \<in> set rest" "ws ! wp = ws ! i" by blast
      have "i < length ws" using assign_velocities_bounds [OF rec i(1)] .
      then have "wp = i"
        using i(2) v(3) Cons.prems(2) by (simp add: nth_eq_iff_index_eq)
      then show False using i(1) Cons.prems(3) by simp
    qed
    then have "h' (ws ! wp) = ?h1 (ws ! wp)"
      using assign_velocities_frame [OF rec] by blast
    then show ?thesis using 0 v by simp
  next
    case (Suc m')
    have "array_item dis (py_int (ds ! (k + 1 + m'))) = Inr (twist_linear_x (h' (ws ! (rest ! m'))))"
      using Cons.IH [OF rec Cons.prems(2)] Cons.prems(3,4) Suc by simp
    then show ?thesis using Suc by simp
  qed
qed

lemma set_velocity_Inr:
  assumes "set_velocity_leading_to_stop_point n cur stop = (Inr nw, n')"
    and "waypoints n = Some ws"
  shows "nw = ws \<and> n' = n\<lparr>heap := heap n'\<rparr> \<and> list_all (\<lambda>i. i + 1 < length ws) [cur..<stop + 1] \<and>
         assign_velocities (distribution (current_velocity n) (total_distance (heap n) ws cur stop))
           (map (segment (heap n) ws) [cur..<stop + 1]) ws [cur + 1..<stop + 1] 0 (heap n)
           = (None, heap n')"
  using assms
  by (auto simp: set_velocity_leading_to_stop_point_def segment_distances_eq total_distance_def
      split: if_splits option.splits prod.splits)

text \<open>The track stored by \<open>waypoints_cb\<close> holds one object per waypoint of the message.\<close>

lemma waypoints_cb_track:
  "waypoints (waypoints_cb n msg) = Some [0..<length msg] \<and> distinct [0..<length msg] \<and>
   (\<forall>i<length msg. heap (waypoints_cb n msg) ([0..<length msg] ! i) = msg ! i)"
  by (simp add: waypoints_cb_def)

lemma array_item_empty [simp]: "array_item [] i = Inl IndexError"
  by (simp add: array_item_def)

lemma distribution_empty [simp]: "distribution v 0 = []"
  by (simp add: distribution_def linspace_def)

text \<open>
  What the loop of lines 102 to 106 writes: waypoint \<open>i\<close> receives the sample of the profile
  whose index is the truncated length of the segment from \<open>i - 1\<close> to \<open>i\<close>.
\<close>

lemma written_speed_is_segment_sample:
  assumes "set_velocity_leading_to_stop_point n cur stop = (Inr nw, n')"
    and "waypoints n = Some ws" and "distinct ws"
    and "cur < i" and "i \<le> stop"
  shows "array_item (distribution (current_velocity n) (total_distance (heap n) ws cur stop))
           (py_int (segment (heap n) ws (i - 1)))
         = Inr (twist_linear_x (heap n' (ws ! i)))"
proof -
  have run: "assign_velocities
      (distribution (current_velocity n) (total_distance (heap n) ws cur stop))
      (map (segment (heap n) ws) [cur..<stop + 1]) ws [cur + 1..<stop + 1] 0 (heap n)
      = (None, heap n')"
    using set_velocity_Inr [OF assms(1,2)] by simp
  have m: "i - (cur + 1) < length [cur + 1..<stop + 1]" using assms(4,5) by simp
  have "[cur + 1..<stop + 1] ! (i - (cur + 1)) = cur + 1 + (i - (cur + 1))"
    using assms(4,5) by (intro nth_upt) simp
  then have idx: "[cur + 1..<stop + 1] ! (i - (cur + 1)) = i" using assms(4) by simp
  have k: "i - (cur + 1) < length [cur..<stop + 1]" using assms(4,5) by simp
  have "[cur..<stop + 1] ! (i - (cur + 1)) = cur + (i - (cur + 1))"
    using assms(4,5) by (intro nth_upt) simp
  also have "\<dots> = i - 1" using assms(4) by simp
  finally have "map (segment (heap n) ws) [cur..<stop + 1] ! (i - (cur + 1))
      = segment (heap n) ws (i - 1)"
    using nth_map [OF k, of "segment (heap n) ws"] by (simp only:)
  then have "map (segment (heap n) ws) [cur..<stop + 1] ! (0 + (i - (cur + 1)))
      = segment (heap n) ws (i - 1)"
    by (simp only: add_0)
  then show ?thesis
    using assign_velocities_written [OF run assms(3) distinct_upt m] idx by (simp only:)
qed

text \<open>
  With at least one waypoint to write and a total distance that truncates to 0, the empty
  profile is indexed and the function raises before it has written anything.
\<close>

lemma empty_ramp_raises:
  assumes "waypoints n = Some ws" and "cur < stop" and "stop + 1 < length ws"
    and "total_distance (heap n) ws cur stop = 0"
  shows "set_velocity_leading_to_stop_point n cur stop = (Inl IndexError, n)"
proof -
  have ok: "list_all (\<lambda>i. i + 1 < length ws) [cur..<stop + 1]"
    using assms(3) by (auto simp: list_all_iff simp del: upt_Suc)
  have nonneg: "0 \<le> sum_list (map (segment (heap n) ws) [cur..<stop + 1])"
    by (rule sum_list_nonneg) auto
  have first: "[cur + 1..<stop + 1] = (cur + 1) # [cur + 2..<stop + 1]"
    using assms(2) by (simp add: upt_conv_Cons)
  have total: "nat \<lfloor>sum_list (map (segment (heap n) ws) [cur..<stop + 1])\<rfloor> = 0"
    using assms(4) by (simp add: total_distance_def)
  have len: "0 < length (map (segment (heap n) ws) [cur..<stop + 1])"
    using assms(2) by simp
  have "assign_velocities [] (map (segment (heap n) ws) [cur..<stop + 1]) ws
          [cur + 1..<stop + 1] 0 (heap n) = (Some IndexError, heap n)"
    unfolding first using len by (simp del: length_map upt_Suc)
  then show ?thesis
    using assms(1) ok nonneg total
    by (simp add: set_velocity_leading_to_stop_point_def segment_distances_eq
        del: upt_Suc)
qed

subsection \<open>Runs of the velocity profile on the concrete nodes\<close>

lemma slow_node_simps [simp]:
  "waypoints slow_node = Some [0, 1, 2, 3]"
  "current_velocity slow_node = 0"
  "heap slow_node 0 = wp_at 0 10"
  "heap slow_node (Suc 0) = wp_at 1 10"
  "heap slow_node 2 = wp_at 3 10"
  "heap slow_node 3 = wp_at 4 10"
  by (simp_all add: slow_node_def waypoints_cb_def init_node_def upt_conv_Cons)

lemma near_node_simps [simp]:
  "waypoints near_node = Some [0, 1, 2]"
  "current_velocity near_node = 8"
  "heap near_node 0 = wp_at 0 10"
  "heap near_node (Suc 0) = wp_at (1/4) 10"
  "heap near_node 2 = wp_at (1/2) 10"
  by (simp_all add: near_node_def waypoints_cb_def current_velocity_cb_def init_node_def
      upt_conv_Cons)

lemma upt_0_3: "[0..<3] = [0, 1, 2]"
  by (simp add: upt_conv_Cons)

lemma upt_1_3: "[Suc 0..<3] = [1, 2]"
  by (simp add: upt_conv_Cons)

lemma upt_0_2: "[0..<2] = [0, 1]"
  by (simp add: upt_conv_Cons)

lemma upt_1_2: "[Suc 0..<2] = [1]"
  by (simp add: upt_conv_Cons)

lemma fast_segments:
  "segment (heap fast_node) [0, Suc 0, 2, 3] 0 = 1"
  "segment (heap fast_node) [0, Suc 0, 2, 3] (Suc 0) = 1"
  "segment (heap fast_node) [0, Suc 0, 2, 3] 2 = 1"
  by (simp_all add: segment_def)

lemma slow_segments:
  "segment (heap slow_node) [0, Suc 0, 2, 3] 0 = 1"
  "segment (heap slow_node) [0, Suc 0, 2, 3] (Suc 0) = 2"
  "segment (heap slow_node) [0, Suc 0, 2, 3] 2 = 1"
  by (simp_all add: segment_def)

lemma near_segments:
  "segment (heap near_node) [0, Suc 0, 2] 0 = 1/4"
  "segment (heap near_node) [0, Suc 0, 2] (Suc 0) = 1/4"
  by (simp_all add: segment_def)

lemma distribution_8_3: "distribution 8 3 = [8, 4, 0]"
  by (simp add: distribution_def linspace_def VEL_THRESHOLD_def upt_conv_Cons)

lemma distribution_0_4: "distribution 0 4 = [0, 5/3, 10/3, 5, 5, 10/3, 5/3, 0]"
  by (simp add: distribution_def linspace_def VEL_THRESHOLD_def upt_conv_Cons)

lemma distribution_8_0: "distribution 8 0 = []"
  by (simp add: distribution_def linspace_def VEL_THRESHOLD_def)

lemma fast_decelerate:
  "set_velocity_leading_to_stop_point fast_node 0 2 =
     (Inr [0, 1, 2, 3],
      fast_node\<lparr>heap := (heap fast_node)
        (1 := (wp_at 1 10)\<lparr>twist_linear_x := 4\<rparr>, 2 := (wp_at 2 10)\<lparr>twist_linear_x := 4\<rparr>)\<rparr>)"
  by (simp add: set_velocity_leading_to_stop_point_def segment_distances_eq upt_0_3 upt_1_3
      fast_segments distribution_8_3 array_item_def py_int_def set_waypoint_velocity_def)

lemma slow_decelerate:
  "set_velocity_leading_to_stop_point slow_node 0 2 =
     (Inr [0, 1, 2, 3],
      slow_node\<lparr>heap := (heap slow_node)
        (1 := (wp_at 1 10)\<lparr>twist_linear_x := 5/3\<rparr>, 2 := (wp_at 3 10)\<lparr>twist_linear_x := 10/3\<rparr>)\<rparr>)"
  by (simp add: set_velocity_leading_to_stop_point_def segment_distances_eq upt_0_3 upt_1_3
      slow_segments distribution_0_4 array_item_def py_int_def set_waypoint_velocity_def)

lemma near_decelerate:
  "set_velocity_leading_to_stop_point near_node 0 1 = (Inl IndexError, near_node)"
  by (simp add: set_velocity_leading_to_stop_point_def segment_distances_eq upt_0_2 upt_1_2
      near_segments distribution_8_0 array_item_def py_int_def set_waypoint_velocity_def)

subsection \<open>The speeds written by a deceleration\<close>

text \<open>
  C1 as stated fails. On the track with waypoints at x = 0, 1, 3, 4, a vehicle at rest at
  index 0 and the stop line at index 2, the function returns, the speed written at index 1
  is 5/3 and the speed written at the stop-line index 2 is 10/3: the speeds increase and
  the speed at the stop line is not 0.
\<close>

theorem decelerate_not_monotone_counterexample:
  "fst (set_velocity_leading_to_stop_point slow_node 0 2) = Inr [0, 1, 2, 3] \<and>
   twist_linear_x (heap (snd (set_velocity_leading_to_stop_point slow_node 0 2)) 1) = 5/3 \<and>
   twist_linear_x (heap (snd (set_velocity_leading_to_stop_point slow_node 0 2)) 2) = 10/3 \<and>
   \<not> (twist_linear_x (heap (snd (set_velocity_leading_to_stop_point slow_node 0 2)) 2)
        \<le> twist_linear_x (heap (snd (set_velocity_leading_to_stop_point slow_node 0 2)) 1)) \<and>
   twist_linear_x (heap (snd (set_velocity_leading_to_stop_point slow_node 0 2)) 2) \<noteq> 0"
  by (simp add: slow_decelerate)

text \<open>
  C1, amended. When the current speed is at least the threshold and the function returns,
  every speed written at an index in \<open>(cur, stop]\<close> is a sample of the linear ramp from the
  current speed to 0 over \<open>total_distance\<close> samples, so it lies between 0 and the current
  speed; that ramp is non-increasing in its sample index, starts at the current speed and,
  with at least two samples, ends at 0. Which sample a waypoint receives is not stated.
\<close>

theorem decelerate_speeds_sample_ramp:
  assumes "VEL_THRESHOLD \<le> current_velocity n"
    and "waypoints n = Some ws" and "distinct ws"
    and "set_velocity_leading_to_stop_point n cur stop = (Inr new_waypoints, n')"
  shows "let v = current_velocity n;
             ramp = linspace v 0 (total_distance (heap n) ws cur stop)
         in (\<forall>i. cur < i \<and> i \<le> stop \<longrightarrow>
               (\<exists>k<length ramp. twist_linear_x (heap n' (ws ! i)) = ramp ! k) \<and>
               0 \<le> twist_linear_x (heap n' (ws ! i)) \<and> twist_linear_x (heap n' (ws ! i)) \<le> v) \<and>
            (\<forall>j k. j \<le> k \<and> k < length ramp \<longrightarrow> ramp ! k \<le> ramp ! j) \<and>
            (ramp \<noteq> [] \<longrightarrow> ramp ! 0 = v) \<and>
            (2 \<le> length ramp \<longrightarrow> last ramp = 0)"
proof -
  define v where "v = current_velocity n"
  define N where "N = total_distance (heap n) ws cur stop"
  define ramp where "ramp = linspace v 0 N"
  have v0: "0 \<le> v" using assms(1) by (simp add: v_def VEL_THRESHOLD_def)
  have dis: "distribution (current_velocity n) N = ramp"
    using assms(1) by (simp add: distribution_def ramp_def v_def)
  have run: "assign_velocities ramp (map (segment (heap n) ws) [cur..<stop + 1]) ws
               [cur + 1..<stop + 1] 0 (heap n) = (None, heap n')"
    using set_velocity_Inr [OF assms(4) assms(2)] dis by (simp add: N_def)
  have written: "(\<exists>k<length ramp. twist_linear_x (heap n' (ws ! i)) = ramp ! k) \<and>
        0 \<le> twist_linear_x (heap n' (ws ! i)) \<and> twist_linear_x (heap n' (ws ! i)) \<le> v"
    if i: "cur < i" "i \<le> stop" for i
  proof -
    have m: "i - (cur + 1) < length [cur + 1..<stop + 1]" using i by simp
    have "[cur + 1..<stop + 1] ! (i - (cur + 1)) = cur + 1 + (i - (cur + 1))"
      using i by (intro nth_upt) simp
    then have nth: "[cur + 1..<stop + 1] ! (i - (cur + 1)) = i" using i by simp
    have "\<exists>x. array_item ramp x = Inr (twist_linear_x (heap n' (ws ! i)))"
      using assign_velocities_written [OF run assms(3) distinct_upt m] nth by auto
    then obtain k where k: "k < length ramp" "twist_linear_x (heap n' (ws ! i)) = ramp ! k"
      using array_item_Inr by blast
    have "k < N" using k(1) by (simp add: ramp_def)
    then have "0 \<le> ramp ! k" "ramp ! k \<le> v"
      unfolding ramp_def using v0 by (simp_all add: linspace_lower linspace_upper)
    then show ?thesis using k by auto
  qed
  have anti: "ramp ! k \<le> ramp ! j" if "j \<le> k" "k < length ramp" for j k
    using that v0 unfolding ramp_def by (simp add: linspace_antitone)
  have first: "ramp ! 0 = v" if "ramp \<noteq> []"
  proof -
    have "length ramp \<noteq> 0" using that by simp
    then show ?thesis unfolding ramp_def by (simp add: linspace_first)
  qed
  have final: "last ramp = 0" if "2 \<le> length ramp"
    using that unfolding ramp_def by (simp add: linspace_last)
  show ?thesis
    unfolding Let_def v_def [symmetric] N_def [symmetric] ramp_def [symmetric]
    using written anti first final by blast
qed

theorem decelerate_speeds_sample_ramp_witness:
  "VEL_THRESHOLD \<le> current_velocity fast_node \<and>
   waypoints fast_node = Some [0, 1, 2, 3] \<and> distinct [0, 1, 2, 3::nat] \<and>
   fst (set_velocity_leading_to_stop_point fast_node 0 2) = Inr [0, 1, 2, 3] \<and>
   linspace 8 0 (total_distance (heap fast_node) [0, 1, 2, 3] 0 2) = [8, 4, 0] \<and>
   twist_linear_x (heap (snd (set_velocity_leading_to_stop_point fast_node 0 2)) 2) = [8, 4, 0] ! 1 \<and>
   0 \<le> twist_linear_x (heap (snd (set_velocity_leading_to_stop_point fast_node 0 2)) 2) \<and>
   twist_linear_x (heap (snd (set_velocity_leading_to_stop_point fast_node 0 2)) 2) \<le> 8"
proof -
  have h1: "VEL_THRESHOLD \<le> current_velocity fast_node"
    by (simp add: VEL_THRESHOLD_def)
  have h2: "waypoints fast_node = Some [0, 1, 2, 3]" by simp
  have h3: "distinct [0, 1, 2, 3::nat]" by simp
  have run: "set_velocity_leading_to_stop_point fast_node 0 2 =
      (Inr [0, 1, 2, 3], snd (set_velocity_leading_to_stop_point fast_node 0 2))"
    by (simp add: fast_decelerate)
  have total: "total_distance (heap fast_node) [0, 1, 2, 3] 0 2 = 3"
    by (simp add: total_distance_def upt_0_3 fast_segments)
  have ramp: "linspace 8 0 3 = [8, 4, 0]"
    using distribution_8_3 by (simp add: distribution_def VEL_THRESHOLD_def)
  have bounds:
    "0 \<le> twist_linear_x (heap (snd (set_velocity_leading_to_stop_point fast_node 0 2)) ([0, 1, 2, 3] ! 2)) \<and>
     twist_linear_x (heap (snd (set_velocity_leading_to_stop_point fast_node 0 2)) ([0, 1, 2, 3] ! 2))
       \<le> current_velocity fast_node"
    using decelerate_speeds_sample_ramp [OF h1 h2 h3 run, unfolded Let_def, THEN conjunct1,
        rule_format, of 2]
    by simp
  have written: "twist_linear_x (heap (snd (set_velocity_leading_to_stop_point fast_node 0 2)) 2) = 4"
    by (simp add: fast_decelerate)
  show ?thesis
    using h1 h3 bounds total ramp written by (simp add: fast_decelerate)
qed

text \<open>
  C2. On four waypoints one unit apart, speed 8, vehicle at index 0 and stop line at
  index 2, the ramp is \<open>[8, 4, 0]\<close>. Waypoint 2 lies at distance 2 from the start, its
  last segment has length 1, and the speed it receives is sample 1 of the ramp, not
  sample 2: the index is the length of the segment that ends at the waypoint.
\<close>

theorem segment_distance_indexing:
  "fst (set_velocity_leading_to_stop_point fast_node 0 2) = Inr [0, 1, 2, 3] \<and>
   distribution 8 (total_distance (heap fast_node) [0, 1, 2, 3] 0 2) = [8, 4, 0] \<and>
   distance (heap fast_node) [0, 1, 2, 3] 0 2 = Inr 2 \<and>
   distance (heap fast_node) [0, 1, 2, 3] 1 2 = Inr 1 \<and>
   twist_linear_x (heap (snd (set_velocity_leading_to_stop_point fast_node 0 2)) 2)
     = [8, 4, 0] ! 1 \<and>
   twist_linear_x (heap (snd (set_velocity_leading_to_stop_point fast_node 0 2)) 2)
     \<noteq> [8, 4, 0] ! 2"
  by (simp add: fast_decelerate total_distance_def upt_0_3 fast_segments distribution_8_3
      distance_def upt_conv_Cons)

text \<open>
  C3. On three waypoints a quarter of a unit apart, vehicle at index 0, stop line at
  index 1, the total distance truncates to 0, the ramp is empty, and the function raises
  IndexError at the first waypoint instead of writing speed 0.
\<close>

theorem empty_ramp_index_error:
  "total_distance (heap near_node) [0, 1, 2] 0 1 = 0 \<and>
   distribution (current_velocity near_node) 0 = [] \<and>
   fst (set_velocity_leading_to_stop_point near_node 0 1) = Inl IndexError"
  using near_decelerate
  by (simp add: total_distance_def upt_0_2 near_segments distribution_8_0)

text \<open>
  Below the threshold and for a truncated length \<open>N \<ge> 2\<close> the profile has \<open>2 * N\<close>
  samples: \<open>N\<close> rising linearly from the current speed to the threshold, then \<open>N\<close>
  falling linearly from the threshold to 0.
\<close>

lemma distribution_two_phases:
  assumes "v < VEL_THRESHOLD" and "2 \<le> N"
  shows "length (distribution v N) = 2 * N \<and>
         (\<forall>i<N. distribution v N ! i = v + real i * ((VEL_THRESHOLD - v) / real (N - 1))) \<and>
         (\<forall>i<N. distribution v N ! (N + i)
                  = VEL_THRESHOLD + real i * ((0 - VEL_THRESHOLD) / real (N - 1))) \<and>
         distribution v N ! 0 = v \<and> distribution v N ! (N - 1) = VEL_THRESHOLD \<and>
         distribution v N ! N = VEL_THRESHOLD \<and> distribution v N ! (2 * N - 1) = 0"
proof -
  have d: "distribution v N = linspace v VEL_THRESHOLD N @ linspace VEL_THRESHOLD 0 N"
    using assms(1) by (simp add: distribution_def)
  have rise: "distribution v N ! i = linspace v VEL_THRESHOLD N ! i" if "i < N" for i
    using that by (simp add: d nth_append)
  have fall: "distribution v N ! (N + i) = linspace VEL_THRESHOLD 0 N ! i" for i
    by (simp add: d nth_append)
  have last_idx: "2 * N - 1 = N + (N - 1)" using assms(2) by simp
  have "distribution v N ! (N - 1) = VEL_THRESHOLD"
    using assms(2) by (simp add: rise linspace_nth)
  moreover have "distribution v N ! N = VEL_THRESHOLD"
    using assms(2) fall [of 0] by (simp add: linspace_first)
  moreover have "distribution v N ! (2 * N - 1) = 0"
    unfolding last_idx fall using assms(2) by (simp add: linspace_nth)
  moreover have "distribution v N ! 0 = v"
    using assms(2) by (simp add: rise linspace_first)
  ultimately show ?thesis
    using assms(2) by (simp add: rise fall linspace_nth_closed) (simp add: d)
qed

lemma upt_0_4: "[0..<4] = [0, 1, 2, 3]"
  by (simp add: upt_conv_Cons)

lemma upt_1_4: "[Suc 0..<4] = [1, 2, 3]"
  by (simp add: upt_conv_Cons)

lemma still_node_simps [simp]:
  "waypoints still_node = Some [0, 1, 2, 3, 4]"
  "current_velocity still_node = 0"
  "heap still_node 0 = wp_at 0 10"
  "heap still_node (Suc 0) = wp_at 1 10"
  "heap still_node 2 = wp_at 2 10"
  "heap still_node 3 = wp_at 3 10"
  "heap still_node 4 = wp_at 4 10"
  by (simp_all add: still_node_def waypoints_cb_def init_node_def upt_conv_Cons)

lemma still_segments:
  "segment (heap still_node) [0, Suc 0, 2, 3, 4] 0 = 1"
  "segment (heap still_node) [0, Suc 0, 2, 3, 4] (Suc 0) = 1"
  "segment (heap still_node) [0, Suc 0, 2, 3, 4] 2 = 1"
  "segment (heap still_node) [0, Suc 0, 2, 3, 4] 3 = 1"
  by (simp_all add: segment_def)

lemma still_decelerate:
  "set_velocity_leading_to_stop_point still_node 0 3 =
     (Inr [0, 1, 2, 3, 4],
      still_node\<lparr>heap := (heap still_node)
        (1 := (wp_at 1 10)\<lparr>twist_linear_x := 5/3\<rparr>,
         2 := (wp_at 2 10)\<lparr>twist_linear_x := 5/3\<rparr>,
         3 := (wp_at 3 10)\<lparr>twist_linear_x := 5/3\<rparr>)\<rparr>)"
  by (simp add: set_velocity_leading_to_stop_point_def segment_distances_eq upt_0_4 upt_1_4
      still_segments distribution_0_4 array_item_def py_int_def set_waypoint_velocity_def)

lemma distribution_8_4_length: "length (distribution 8 4) = 4"
  by (simp add: distribution_def VEL_THRESHOLD_def)

text \<open>
  C4. On five waypoints one unit apart, vehicle at rest at index 0 and stop line at
  index 3, the truncated length is 4 and the profile has 8 samples, 4 rising and 4
  falling, where the branch for higher speeds has 4 in all: each phase spans the whole
  length, not half of it. The waypoints 1, 2 and 3 all receive sample 1 of the rising
  phase, 5/3, and none receives a sample of the falling phase.
\<close>

theorem rising_phase_spans_whole_distance:
  "total_distance (heap still_node) [0, 1, 2, 3, 4] 0 3 = 4 \<and>
   distribution (current_velocity still_node) 4 = [0, 5/3, 10/3, 5, 5, 10/3, 5/3, 0] \<and>
   length (distribution (current_velocity still_node) 4) = 2 * 4 \<and>
   length (distribution 8 4) = 4 \<and>
   distribution (current_velocity still_node) 4
     \<noteq> linspace 0 VEL_THRESHOLD (4 div 2) @ linspace VEL_THRESHOLD 0 (4 div 2) \<and>
   fst (set_velocity_leading_to_stop_point still_node 0 3) = Inr [0, 1, 2, 3, 4] \<and>
   map (\<lambda>r. twist_linear_x (heap (snd (set_velocity_leading_to_stop_point still_node 0 3)) r))
     [1, 2, 3] = [5/3, 5/3, 5/3]"
  using distribution_8_4_length
  by (simp add: still_decelerate total_distance_def upt_0_4 still_segments distribution_0_4
      linspace_def VEL_THRESHOLD_def upt_conv_Cons)

text \<open>
  C5. The copy of line 78 copies the list, not the waypoints: after the function has run
  on four waypoints of speed 10 (speed 8, vehicle at index 0, stop line at index 2), the
  speeds of \<open>self.waypoints\<close> are 10, 4, 4, 10.
\<close>

theorem canonical_track_mutated:
  "track_speeds fast_node = [10, 10, 10, 10] \<and>
   fst (set_velocity_leading_to_stop_point fast_node 0 2) = Inr [0, 1, 2, 3] \<and>
   waypoints (snd (set_velocity_leading_to_stop_point fast_node 0 2)) = waypoints fast_node \<and>
   track_speeds (snd (set_velocity_leading_to_stop_point fast_node 0 2)) = [10, 4, 4, 10]"
  by (simp add: fast_decelerate track_speeds_def)

subsection \<open>One cycle of pose\_cb\<close>

lemma set_velocity_stop_behind:
  "stop < cur \<Longrightarrow> waypoints n = Some ws \<Longrightarrow>
   set_velocity_leading_to_stop_point n cur stop = (Inr ws, n)"
  by (simp add: set_velocity_leading_to_stop_point_def)

lemma set_velocity_fields:
  assumes "set_velocity_leading_to_stop_point n cur stop = (r, n')"
  shows "waypoints n' = waypoints n \<and> current_traffic_light n' = current_traffic_light n \<and>
         current_velocity n' = current_velocity n \<and> current_pose n' = current_pose n"
  using assms
  by (auto simp: set_velocity_leading_to_stop_point_def
      split: option.splits sum.splits if_splits prod.splits)

lemma set_velocity_returns_track:
  assumes "set_velocity_leading_to_stop_point n cur stop = (Inr nw, n')"
  shows "waypoints n = Some nw"
  using assms
  by (auto simp: set_velocity_leading_to_stop_point_def
      split: option.splits sum.splits if_splits prod.splits)

lemma pose_cb_cruise:
  assumes "waypoints n = Some ws" and "\<not> red_or_yellow (current_traffic_light n)"
  shows "pose_cb rospy next_wp nearest_stop n p =
           \<lparr>raised = None, logged = [],
            published = [StopLineWaypoint (stop_line_waypoint_idx next_wp nearest_stop p),
                         FinalWaypoints (map (heap n)
                           (take LOOKAHEAD_WPS (drop (closest_wp_idx next_wp p) ws)))],
            after = n\<lparr>current_pose := Some p, current_traffic_light := None\<rparr>\<rparr>"
  using assms by (simp add: pose_cb_def publish_window_def Let_def)

lemma pose_cb_before_load:
  assumes "waypoints n = None"
  shows "published (pose_cb rospy next_wp nearest_stop n p) = [] \<and>
         after (pose_cb rospy next_wp nearest_stop n p) = n \<and>
         (raised (pose_cb rospy next_wp nearest_stop n p) = None \<longleftrightarrow> ''error'' \<in> set rospy)"
  using assms by (simp add: pose_cb_def rospy_call_def)

lemma pose_cb_completed:
  assumes "waypoints n = Some ws"
    and "raised (pose_cb rospy next_wp nearest_stop n p) = None"
  shows "\<exists>h. pose_cb rospy next_wp nearest_stop n p =
           \<lparr>raised = None, logged = [],
            published = [StopLineWaypoint (stop_line_waypoint_idx next_wp nearest_stop p),
                         FinalWaypoints (map h
                           (take LOOKAHEAD_WPS (drop (closest_wp_idx next_wp p) ws)))],
            after = n\<lparr>current_pose := Some p, heap := h, current_traffic_light := None\<rparr>\<rparr>"
proof (cases "red_or_yellow (current_traffic_light n)")
  case False
  then show ?thesis
    using pose_cb_cruise [OF assms(1) False] by (intro exI [of _ "heap n"]) simp
next
  case True
  let ?n1 = "n\<lparr>current_pose := Some p\<rparr>"
  obtain r n2 where run: "set_velocity_leading_to_stop_point ?n1 (closest_wp_idx next_wp p)
      (stop_line_waypoint_idx next_wp nearest_stop p) = (r, n2)"
    by (cases "set_velocity_leading_to_stop_point ?n1 (closest_wp_idx next_wp p)
      (stop_line_waypoint_idx next_wp nearest_stop p)") blast
  have "\<exists>nw. r = Inr nw"
    using assms(2) True run
    by (cases r) (simp_all add: pose_cb_def Let_def assms(1))
  then obtain nw where r: "r = Inr nw" by blast
  have w1: "waypoints ?n1 = Some ws" using assms(1) by simp
  have nw: "nw = ws" and n2: "n2 = ?n1\<lparr>heap := heap n2\<rparr>"
    using set_velocity_Inr [OF run [unfolded r] w1] by simp_all
  have "pose_cb rospy next_wp nearest_stop n p =
      publish_window n2 ws (closest_wp_idx next_wp p)
        (StopLineWaypoint (stop_line_waypoint_idx next_wp nearest_stop p))"
    using True run r nw by (simp add: pose_cb_def Let_def assms(1))
  then show ?thesis
    apply (intro exI [of _ "heap n2"])
    apply (subst (asm) n2)
    apply (simp add: publish_window_def Let_def)
    done
qed

lemma pose_cb_raised:
  assumes "waypoints n = Some ws"
    and "raised (pose_cb rospy next_wp nearest_stop n p) = Some e"
  shows "published (pose_cb rospy next_wp nearest_stop n p)
           = [StopLineWaypoint (stop_line_waypoint_idx next_wp nearest_stop p)]"
  using assms
  by (auto simp: pose_cb_def Let_def publish_window_def split: if_splits prod.splits sum.splits)

lemma pose_cb_decelerate_raises:
  assumes "waypoints n = Some ws" and "red_or_yellow (current_traffic_light n)"
    and "set_velocity_leading_to_stop_point (n\<lparr>current_pose := Some p\<rparr>)
           (closest_wp_idx next_wp p) (stop_line_waypoint_idx next_wp nearest_stop p) = (Inl e, n2)"
  shows "pose_cb rospy next_wp nearest_stop n p =
           \<lparr>raised = Some e, logged = [],
            published = [StopLineWaypoint (stop_line_waypoint_idx next_wp nearest_stop p)],
            after = n2\<rparr>"
  using assms by (simp add: pose_cb_def Let_def)

lemma pose_cb_decelerate_returns:
  assumes "waypoints n = Some ws" and "red_or_yellow (current_traffic_light n)"
    and "set_velocity_leading_to_stop_point (n\<lparr>current_pose := Some p\<rparr>)
           (closest_wp_idx next_wp p) (stop_line_waypoint_idx next_wp nearest_stop p) = (Inr nw, n2)"
  shows "pose_cb rospy next_wp nearest_stop n p =
           publish_window n2 nw (closest_wp_idx next_wp p)
             (StopLineWaypoint (stop_line_waypoint_idx next_wp nearest_stop p))"
  using assms by (simp add: pose_cb_def Let_def)

subsection \<open>Cycles on the concrete nodes\<close>

lemma fast_decelerate_any:
  assumes "waypoints n = Some [0, 1, 2, 3]" and "current_velocity n = 8"
    and "heap n 0 = wp_at 0 10" and "heap n (Suc 0) = wp_at 1 10"
    and "heap n 2 = wp_at 2 10" and "heap n 3 = wp_at 3 10"
  shows "set_velocity_leading_to_stop_point n 0 2 =
     (Inr [0, 1, 2, 3],
      n\<lparr>heap := (heap n)
        (1 := (wp_at 1 10)\<lparr>twist_linear_x := 4\<rparr>, 2 := (wp_at 2 10)\<lparr>twist_linear_x := 4\<rparr>)\<rparr>)"
proof -
  have seg: "segment (heap n) [0, Suc 0, 2, 3] 0 = 1"
    "segment (heap n) [0, Suc 0, 2, 3] (Suc 0) = 1"
    "segment (heap n) [0, Suc 0, 2, 3] 2 = 1"
    using assms by (simp_all add: segment_def)
  show ?thesis
    using assms
    by (simp add: set_velocity_leading_to_stop_point_def segment_distances_eq upt_0_3 upt_1_3
      seg distribution_8_3 array_item_def py_int_def set_waypoint_velocity_def)
qed

lemma near_decelerate_any:
  assumes "waypoints n = Some [0, 1, 2]" and "current_velocity n = 8"
    and "heap n 0 = wp_at 0 10" and "heap n (Suc 0) = wp_at (1/4) 10"
    and "heap n 2 = wp_at (1/2) 10"
  shows "set_velocity_leading_to_stop_point n 0 1 = (Inl IndexError, n)"
proof -
  have seg: "segment (heap n) [0, Suc 0, 2] 0 = 1/4"
    "segment (heap n) [0, Suc 0, 2] (Suc 0) = 1/4"
    using assms by (simp_all add: segment_def)
  show ?thesis
    using assms
    by (simp add: set_velocity_leading_to_stop_point_def segment_distances_eq upt_0_2 upt_1_2
      seg distribution_8_0 array_item_def py_int_def set_waypoint_velocity_def)
qed

lemma axis_indices [simp]:
  "closest_wp_idx (next_wp_on_axis 1) (pose_at 0) = 0"
  "closest_wp_idx (next_wp_on_axis 1) (pose_at 1) = 1"
  "closest_wp_idx (next_wp_on_axis 1) (pose_at 2) = 2"
  "stop_line_waypoint_idx (next_wp_on_axis 1) (stop_line_at 1) p = 1"
  "stop_line_waypoint_idx (next_wp_on_axis 1) (stop_line_at 2) p = 2"
  "closest_wp_idx (next_wp_on_axis (1/4)) (pose_at 0) = 0"
  "stop_line_waypoint_idx (next_wp_on_axis (1/4)) (stop_line_at (1/4)) p = 1"
  by (simp_all add: closest_wp_idx_def stop_line_waypoint_idx_def stop_line_pose_def
      next_wp_on_axis_def pose_at_def stop_line_at_def)

lemma red_nodes [simp]:
  "red_or_yellow (Some RED)"
  "waypoints red_fast_node = Some [0, 1, 2, 3]"
  "current_traffic_light red_fast_node = Some RED"
  "current_velocity red_fast_node = 8"
  "heap red_fast_node = heap fast_node"
  "waypoints red_near_node = Some [0, 1, 2]"
  "current_traffic_light red_near_node = Some RED"
  "current_velocity red_near_node = 8"
  "heap red_near_node = heap near_node"
  by (simp_all add: red_fast_node_def red_near_node_def upcoming_traffic_light_cb_def
      red_or_yellow_def RED_def)

subsection \<open>The claims about pose\_cb\<close>

text \<open>
  C6. Before the track is loaded, \<open>pose_cb\<close> calls \<open>rospy.error\<close>. The client library has
  \<open>logerr\<close> (used on line 188) and no \<open>error\<close>, so the call raises AttributeError: the
  callback does not report and return. Nothing is published and the node is unchanged.
\<close>

theorem pose_before_track_raises:
  "pose_cb rospy_names (next_wp_on_axis 1) (stop_line_at 2) init_node (pose_at 0) =
     \<lparr>raised = Some AttributeError, logged = [], published = [], after = init_node\<rparr>"
  by (simp add: pose_cb_def init_node_def rospy_call_def rospy_names_def)

text \<open>
  C7. When the track is loaded and the waypoint index of the stop line is behind that of
  the vehicle, the cycle raises nothing and publishes the window of the canonical track
  from the vehicle's index, whatever the light: with a red or yellow light the velocity
  profile runs over empty ranges and writes nothing, so the track's speeds are unchanged.
\<close>

theorem stop_behind_vehicle_cruise:
  assumes "waypoints n = Some ws"
    and "stop_line_waypoint_idx next_wp nearest_stop p < closest_wp_idx next_wp p"
  shows "raised (pose_cb rospy next_wp nearest_stop n p) = None \<and>
         published (pose_cb rospy next_wp nearest_stop n p) =
           [StopLineWaypoint (stop_line_waypoint_idx next_wp nearest_stop p),
            FinalWaypoints (map (heap n)
              (take LOOKAHEAD_WPS (drop (closest_wp_idx next_wp p) ws)))] \<and>
         heap (after (pose_cb rospy next_wp nearest_stop n p)) = heap n \<and>
         track_speeds (after (pose_cb rospy next_wp nearest_stop n p)) = track_speeds n"
proof (cases "red_or_yellow (current_traffic_light n)")
  case False
  show ?thesis
    using assms(1) by (simp add: pose_cb_cruise [OF assms(1) False] track_speeds_def)
next
  case True
  have w1: "waypoints (n\<lparr>current_pose := Some p\<rparr>) = Some ws" using assms(1) by simp
  have "pose_cb rospy next_wp nearest_stop n p =
      publish_window (n\<lparr>current_pose := Some p\<rparr>) ws (closest_wp_idx next_wp p)
        (StopLineWaypoint (stop_line_waypoint_idx next_wp nearest_stop p))"
    using pose_cb_decelerate_returns [OF assms(1) True set_velocity_stop_behind [OF assms(2) w1]] .
  then show ?thesis
    using assms(1) by (simp add: publish_window_def Let_def track_speeds_def)
qed

theorem stop_behind_vehicle_cruise_witness:
  "waypoints red_fast_node = Some [0, 1, 2, 3] \<and>
   stop_line_waypoint_idx (next_wp_on_axis 1) (stop_line_at 1) (pose_at 2)
     < closest_wp_idx (next_wp_on_axis 1) (pose_at 2) \<and>
   raised (pose_cb rospy_names (next_wp_on_axis 1) (stop_line_at 1) red_fast_node (pose_at 2)) = None \<and>
   published (pose_cb rospy_names (next_wp_on_axis 1) (stop_line_at 1) red_fast_node (pose_at 2))
     = [StopLineWaypoint 1, FinalWaypoints [wp_at 2 10, wp_at 3 10]] \<and>
   track_speeds (after (pose_cb rospy_names (next_wp_on_axis 1) (stop_line_at 1) red_fast_node
     (pose_at 2))) = [10, 10, 10, 10]"
proof -
  have h1: "waypoints red_fast_node = Some [0, 1, 2, 3]" by simp
  have h2: "stop_line_waypoint_idx (next_wp_on_axis 1) (stop_line_at 1) (pose_at 2)
     < closest_wp_idx (next_wp_on_axis 1) (pose_at 2)" by simp
  have speeds: "track_speeds red_fast_node = [10, 10, 10, 10]"
    by (simp add: track_speeds_def)
  show ?thesis
    using stop_behind_vehicle_cruise [OF h1 h2, of rospy_names] speeds
    by (simp add: LOOKAHEAD_WPS_def)
qed

text \<open>
  A cycle that used a RED light and ran to its end leaves no light stored, and the next
  pose update publishes the window of \<open>self.waypoints\<close> as it is.
\<close>

lemma completed_cycle_consumes_signal:
  assumes "waypoints n = Some ws"
    and "current_traffic_light n = Some l" and "tl_state l = 0"
    and "raised (pose_cb rospy next_wp nearest_stop n p) = None"
  shows "let n1 = after (pose_cb rospy next_wp nearest_stop n p)
         in current_traffic_light n1 = None \<and>
            pose_cb rospy next_wp nearest_stop n1 p' =
              \<lparr>raised = None, logged = [],
               published = [StopLineWaypoint (stop_line_waypoint_idx next_wp nearest_stop p'),
                            FinalWaypoints (map (heap n1)
                              (take LOOKAHEAD_WPS (drop (closest_wp_idx next_wp p') ws)))],
               after = n1\<lparr>current_pose := Some p'\<rparr>\<rparr>"
proof -
  obtain h where out: "pose_cb rospy next_wp nearest_stop n p =
      \<lparr>raised = None, logged = [],
       published = [StopLineWaypoint (stop_line_waypoint_idx next_wp nearest_stop p),
                    FinalWaypoints (map h
                      (take LOOKAHEAD_WPS (drop (closest_wp_idx next_wp p) ws)))],
       after = n\<lparr>current_pose := Some p, heap := h, current_traffic_light := None\<rparr>\<rparr>"
    using pose_cb_completed [OF assms(1) assms(4)] by blast
  let ?n1 = "n\<lparr>current_pose := Some p, heap := h, current_traffic_light := None\<rparr>"
  have w: "waypoints ?n1 = Some ws" using assms(1) by simp
  have l: "\<not> red_or_yellow (current_traffic_light ?n1)"
    by (simp add: red_or_yellow_def)
  show ?thesis
    unfolding Let_def out using pose_cb_cruise [OF w l, of rospy next_wp nearest_stop p']
    by simp
qed

text \<open>
  C8. On the track with waypoints a quarter of a unit apart and a RED light, the cycle
  raises IndexError in the velocity profile, before the reset of line 143: the light
  stays stored, and the next pose update, with no new light message, runs the velocity
  profile again (and raises again) instead of publishing the track unchanged.
\<close>

theorem stale_signal_after_error:
  "raised (pose_cb rospy_names (next_wp_on_axis (1/4)) (stop_line_at (1/4)) red_near_node
     (pose_at 0)) = Some IndexError \<and>
   current_traffic_light (after (pose_cb rospy_names (next_wp_on_axis (1/4))
     (stop_line_at (1/4)) red_near_node (pose_at 0))) = Some RED \<and>
   pose_cb rospy_names (next_wp_on_axis (1/4)) (stop_line_at (1/4))
     (after (pose_cb rospy_names (next_wp_on_axis (1/4)) (stop_line_at (1/4)) red_near_node
        (pose_at 0))) (pose_at 0)
     = \<lparr>raised = Some IndexError, logged = [], published = [StopLineWaypoint 1],
        after = red_near_node\<lparr>current_pose := Some (pose_at 0)\<rparr>\<rparr>"
proof -
  let ?n1 = "red_near_node\<lparr>current_pose := Some (pose_at 0)\<rparr>"
  have run: "set_velocity_leading_to_stop_point ?n1 0 1 = (Inl IndexError, ?n1)"
    by (rule near_decelerate_any) simp_all
  have first: "pose_cb rospy_names (next_wp_on_axis (1/4)) (stop_line_at (1/4)) red_near_node
      (pose_at 0)
      = \<lparr>raised = Some IndexError, logged = [], published = [StopLineWaypoint 1], after = ?n1\<rparr>"
    using pose_cb_decelerate_raises [of red_near_node "[0, 1, 2]" "pose_at 0"
        "next_wp_on_axis (1/4)" "stop_line_at (1/4)" IndexError ?n1 rospy_names] run
    by simp
  have second: "pose_cb rospy_names (next_wp_on_axis (1/4)) (stop_line_at (1/4)) ?n1 (pose_at 0)
      = \<lparr>raised = Some IndexError, logged = [], published = [StopLineWaypoint 1], after = ?n1\<rparr>"
    using pose_cb_decelerate_raises [of ?n1 "[0, 1, 2]" "pose_at 0"
        "next_wp_on_axis (1/4)" "stop_line_at (1/4)" IndexError ?n1 rospy_names] run
    by simp
  show ?thesis
    by (simp add: first second)
qed

text \<open>
  C9. Every window that a cycle publishes has at most \<open>LOOKAHEAD_WPS\<close> waypoints, and its
  length is the minimum of \<open>LOOKAHEAD_WPS\<close> and the length of the track minus the vehicle's
  index (an index of the track, or its length).
\<close>

theorem window_length:
  assumes "waypoints n = Some ws"
    and "closest_wp_idx next_wp p \<le> length ws"
    and "FinalWaypoints w \<in> set (published (pose_cb rospy next_wp nearest_stop n p))"
  shows "length w \<le> LOOKAHEAD_WPS \<and>
         int (length w) = min (int LOOKAHEAD_WPS) (int (length ws) - int (closest_wp_idx next_wp p))"
proof (cases "raised (pose_cb rospy next_wp nearest_stop n p)")
  case None
  obtain h where "pose_cb rospy next_wp nearest_stop n p =
      \<lparr>raised = None, logged = [],
       published = [StopLineWaypoint (stop_line_waypoint_idx next_wp nearest_stop p),
                    FinalWaypoints (map h
                      (take LOOKAHEAD_WPS (drop (closest_wp_idx next_wp p) ws)))],
       after = n\<lparr>current_pose := Some p, heap := h, current_traffic_light := None\<rparr>\<rparr>"
    using pose_cb_completed [OF assms(1) None] by blast
  then have "w = map h (take LOOKAHEAD_WPS (drop (closest_wp_idx next_wp p) ws))"
    using assms(3) by simp
  then have "length w = min LOOKAHEAD_WPS (length ws - closest_wp_idx next_wp p)"
    by simp
  then show ?thesis using assms(2) by (auto simp: min_def)
next
  case (Some e)
  then show ?thesis
    using pose_cb_raised [OF assms(1) Some] assms(3) by simp
qed

theorem window_length_witness:
  "waypoints fast_node = Some [0, 1, 2, 3] \<and>
   closest_wp_idx (next_wp_on_axis 1) (pose_at 1) \<le> length [0, 1, 2, 3::nat] \<and>
   FinalWaypoints [wp_at 1 10, wp_at 2 10, wp_at 3 10]
     \<in> set (published (pose_cb rospy_names (next_wp_on_axis 1) (stop_line_at 2) fast_node (pose_at 1))) \<and>
   length [wp_at 1 10, wp_at 2 10, wp_at 3 10] \<le> LOOKAHEAD_WPS \<and>
   int (length [wp_at 1 10, wp_at 2 10, wp_at 3 10])
     = min (int LOOKAHEAD_WPS) (int (length [0, 1, 2, 3::nat])
         - int (closest_wp_idx (next_wp_on_axis 1) (pose_at 1)))"
proof -
  have h1: "waypoints fast_node = Some [0, 1, 2, 3]" by simp
  have h2: "closest_wp_idx (next_wp_on_axis 1) (pose_at 1) \<le> length [0, 1, 2, 3::nat]" by simp
  have l: "\<not> red_or_yellow (current_traffic_light fast_node)"
    by (simp add: red_or_yellow_def)
  have h3: "FinalWaypoints [wp_at 1 10, wp_at 2 10, wp_at 3 10]
     \<in> set (published (pose_cb rospy_names (next_wp_on_axis 1) (stop_line_at 2) fast_node (pose_at 1)))"
    by (simp add: pose_cb_cruise [OF h1 l] LOOKAHEAD_WPS_def)
  show ?thesis
    using window_length [OF h1 h2 h3] h1 h2 h3 by simp
qed

end
